theory Spec2Isabelle
  imports Complex_Main
begin

section \<open>JavaScript values\<close>

text \<open>
  The handler of \<^verbatim>\<open>src/index.ts\<close> works on untyped data (\<^verbatim>\<open>any\<close>): the tool arguments,
  the object zod returns, the body of the remote response and the summaries it builds.
  All of them are values of one type. \<open>JUndef\<close> is JavaScript's \<^verbatim>\<open>undefined\<close>: the value
  of a property that is missing. A number is the rational value of a finite double
  (a JSON document has neither NaN nor an infinity). An object lists its properties in
  enumeration order, every key once.
\<close>

datatype json =
    JUndef
  | JNull
  | JBool bool
  | JNum rat
  | JStr string
  | JArr "json list"
  | JObj "(string \<times> json) list"

text \<open>Truthiness, as \<^verbatim>\<open>if (v)\<close>, \<^verbatim>\<open>v || d\<close>, \<^verbatim>\<open>a && b\<close> and \<^verbatim>\<open>!v\<close> test it.\<close>

fun truthy :: "json \<Rightarrow> bool" where
  "truthy JUndef = False"
| "truthy JNull = False"
| "truthy (JBool b) = b"
| "truthy (JNum r) = (r \<noteq> 0)"
| "truthy (JStr s) = (s \<noteq> [])"
| "truthy (JArr xs) = True"
| "truthy (JObj kvs) = True"

fun nullish :: "json \<Rightarrow> bool" where
  "nullish JUndef = True"
| "nullish JNull = True"
| "nullish v = False"

text \<open>\<^verbatim>\<open>a || b\<close>\<close>

definition or_else :: "json \<Rightarrow> json \<Rightarrow> json" where
  "or_else a b = (if truthy a then a else b)"

text \<open>
  \<^verbatim>\<open>v.k\<close> on a value that is neither null nor undefined: the property of an object, and
  undefined on a primitive or an array (none of the keys the handler reads is a built-in
  property of strings, numbers, booleans or arrays).
\<close>

fun field :: "json \<Rightarrow> string \<Rightarrow> json" where
  "field (JObj kvs) k = (case map_of kvs k of None \<Rightarrow> JUndef | Some v \<Rightarrow> v)"
| "field v k = JUndef"

text \<open>\<^verbatim>\<open>v?.k\<close>\<close>

definition opt_prop :: "json \<Rightarrow> string \<Rightarrow> json" where
  "opt_prop v k = (if nullish v then JUndef else field v k)"

text \<open>\<^verbatim>\<open>params.k = v\<close>: an existing key keeps its place, a new key goes last.\<close>

fun set_key :: "(string \<times> json) list \<Rightarrow> string \<Rightarrow> json \<Rightarrow> (string \<times> json) list" where
  "set_key [] k v = [(k, v)]"
| "set_key ((k', v') # kvs) k v = (if k' = k then (k, v) # kvs else (k', v') # set_key kvs k v)"

fun set_prop :: "json \<Rightarrow> string \<Rightarrow> json \<Rightarrow> json" where
  "set_prop (JObj kvs) k v = JObj (set_key kvs k v)"
| "set_prop o' k v = o'"

text \<open>\<^verbatim>\<open>Array.prototype.join\<close>\<close>

fun join :: "string \<Rightarrow> string list \<Rightarrow> string" where
  "join sep [] = []"
| "join sep [x] = x"
| "join sep (x # y # ys) = x @ sep @ join sep (y # ys)"

text \<open>
  The conversion of a value to a string in a template literal \<^verbatim>\<open>`${v}`\<close>. The rendering
  of a number (\<^verbatim>\<open>Number.prototype.toString\<close>) is the runtime's; it is the parameter
  \<open>numstr\<close> of everything that prints a number.
\<close>

type_synonym numstr = "rat \<Rightarrow> string"

fun to_string :: "numstr \<Rightarrow> json \<Rightarrow> string"
  and to_string_items :: "numstr \<Rightarrow> json list \<Rightarrow> string list"
where
  "to_string ns JUndef = ''undefined''"
| "to_string ns JNull = ''null''"
| "to_string ns (JBool b) = (if b then ''true'' else ''false'')"
| "to_string ns (JNum r) = ns r"
| "to_string ns (JStr s) = s"
| "to_string ns (JArr xs) = join '','' (to_string_items ns xs)"
| "to_string ns (JObj kvs) = ''[object Object]''"
| "to_string_items ns [] = []"
| "to_string_items ns (x # xs) =
     (if nullish x then [] else to_string ns x) # to_string_items ns xs"

subsection \<open>JSON.stringify(value, null, 2)\<close>

definition hex_digit :: "nat \<Rightarrow> char" where
  "hex_digit n = ''0123456789abcdef'' ! n"

definition escape_char :: "char \<Rightarrow> string" where
  "escape_char c =
     (if c = CHR 0x22 then [CHR 0x5C, CHR 0x22]
      else if c = CHR 0x5C then [CHR 0x5C, CHR 0x5C]
      else if c = CHR 0x08 then [CHR 0x5C, CHR ''b'']
      else if c = CHR 0x0C then [CHR 0x5C, CHR ''f'']
      else if c = CHR 0x0A then [CHR 0x5C, CHR ''n'']
      else if c = CHR 0x0D then [CHR 0x5C, CHR ''r'']
      else if c = CHR 0x09 then [CHR 0x5C, CHR ''t'']
      else if (of_char c :: nat) < 32
        then [CHR 0x5C, CHR ''u'', CHR ''0'', CHR ''0'',
              hex_digit (of_char c div 16), hex_digit (of_char c mod 16)]
      else [c])"

definition quote :: "string \<Rightarrow> string" where
  "quote s = [CHR 0x22] @ concat (map escape_char s) @ [CHR 0x22]"

definition gap :: string where
  "gap = ''  ''"

text \<open>
  \<open>ser ns ind v\<close> is the text of \<open>v\<close> at indentation \<open>ind\<close>, and \<open>None\<close> for undefined:
  an undefined property is left out of its object, an undefined array element is
  written \<^verbatim>\<open>null\<close>.
\<close>

fun ser :: "numstr \<Rightarrow> string \<Rightarrow> json \<Rightarrow> string option"
  and ser_items :: "numstr \<Rightarrow> string \<Rightarrow> json list \<Rightarrow> string list"
  and ser_props :: "numstr \<Rightarrow> string \<Rightarrow> (string \<times> json) list \<Rightarrow> string list"
where
  "ser ns ind JUndef = None"
| "ser ns ind JNull = Some ''null''"
| "ser ns ind (JBool b) = Some (if b then ''true'' else ''false'')"
| "ser ns ind (JNum r) = Some (ns r)"
| "ser ns ind (JStr s) = Some (quote s)"
| "ser ns ind (JArr xs) =
     Some (if xs = [] then ''[]''
           else ''['' @ ''\<newline>'' @ ind @ gap
                @ join ('','' @ ''\<newline>'' @ ind @ gap) (ser_items ns (ind @ gap) xs)
                @ ''\<newline>'' @ ind @ '']'')"
| "ser ns ind (JObj kvs) =
     Some (let ps = ser_props ns (ind @ gap) kvs in
           if ps = [] then ''{}''
           else ''{'' @ ''\<newline>'' @ ind @ gap
                @ join ('','' @ ''\<newline>'' @ ind @ gap) ps
                @ ''\<newline>'' @ ind @ ''}'')"
| "ser_items ns ind [] = []"
| "ser_items ns ind (x # xs) =
     (case ser ns ind x of None \<Rightarrow> ''null'' | Some s \<Rightarrow> s) # ser_items ns ind xs"
| "ser_props ns ind [] = []"
| "ser_props ns ind ((k, v) # kvs) =
     (case ser ns ind v of
        None \<Rightarrow> ser_props ns ind kvs
      | Some s \<Rightarrow> (quote k @ '': '' @ s) # ser_props ns ind kvs)"

text \<open>\<^verbatim>\<open>`${JSON.stringify(v, null, 2)}`\<close>\<close>

definition stringify :: "numstr \<Rightarrow> json \<Rightarrow> string" where
  "stringify ns v = (case ser ns [] v of None \<Rightarrow> ''undefined'' | Some s \<Rightarrow> s)"

section \<open>Errors\<close>

text \<open>
  \<^verbatim>\<open>ErrorCode\<close> and \<^verbatim>\<open>McpError\<close> of the protocol SDK. \<open>message\<close> is the message the
  handler passes to the constructor. The \<^verbatim>\<open>.message\<close> property of the error object is
  what the SDK's constructor builds from it, \<^verbatim>\<open>`MCP error ${code}: ${message}`\<close>.
\<close>

datatype ErrorCode = InvalidRequest | MethodNotFound | InvalidParams | InternalError

fun code_number :: "ErrorCode \<Rightarrow> int" where
  "code_number InvalidRequest = - 32600"
| "code_number MethodNotFound = - 32601"
| "code_number InvalidParams = - 32602"
| "code_number InternalError = - 32603"

record McpError =
  code :: ErrorCode
  message :: string

definition error_message :: "numstr \<Rightarrow> McpError \<Rightarrow> string" where
  "error_message ns e =
     ''MCP error '' @ ns (of_int (code_number (code e))) @ '': '' @ message e"

text \<open>
  What the \<^verbatim>\<open>try\<close> block can throw, as the \<^verbatim>\<open>catch\<close> block sees it: a \<^verbatim>\<open>ZodError\<close> with
  the messages of its issues, or any other value with its \<^verbatim>\<open>error.response?.status\<close>
  and its \<^verbatim>\<open>error.message\<close> (\<open>None\<close> where there is none).
\<close>

datatype exn =
    ZodError "string list"
  | Thrown "int option" "string option"

text \<open>A \<^verbatim>\<open>TypeError\<close> of the runtime, and a thrown \<^verbatim>\<open>McpError\<close>: neither has a response.\<close>

definition TypeError :: "string \<Rightarrow> exn" where
  "TypeError m = Thrown None (Some m)"

definition throw_mcp :: "numstr \<Rightarrow> McpError \<Rightarrow> exn" where
  "throw_mcp ns e = Thrown None (Some (error_message ns e))"

definition bnd :: "exn + 'a \<Rightarrow> ('a \<Rightarrow> exn + 'b) \<Rightarrow> exn + 'b" where
  "bnd m f = (case m of Inl e \<Rightarrow> Inl e | Inr x \<Rightarrow> f x)"

text \<open>\<^verbatim>\<open>v.k\<close> on any value: reading a property of null or undefined throws.\<close>

definition get :: "json \<Rightarrow> string \<Rightarrow> exn + json" where
  "get v k =
     (if nullish v
      then Inl (TypeError (''Cannot read properties of '' @ (if v = JNull then ''null'' else ''undefined'')
                           @ '' (reading '' @ [CHR 0x27] @ k @ [CHR 0x27] @ '')''))
      else Inr (field v k))"

text \<open>\<^verbatim>\<open>xs.map(f)\<close> with a callback that can throw: the first throw ends the loop.\<close>

fun map_exn :: "('a \<Rightarrow> exn + 'b) \<Rightarrow> 'a list \<Rightarrow> exn + 'b list" where
  "map_exn f [] = Inr []"
| "map_exn f (x # xs) =
     (case f x of
        Inl e \<Rightarrow> Inl e
      | Inr y \<Rightarrow> (case map_exn f xs of Inl e \<Rightarrow> Inl e | Inr ys \<Rightarrow> Inr (y # ys)))"

section \<open>Schemas\<close>

text \<open>
  The part of zod (version 3) the schemas use. A schema is data; \<open>zparse\<close> is
  \<^verbatim>\<open>schema.parse\<close>, returning the messages of all issues, in the order of the schema's
  declaration, or the parsed output. \<^verbatim>\<open>.describe\<close> has no effect on parsing.
\<close>

datatype zschema =
    ZString
  | ZNumber
  | ZArray zschema
  | ZOptional zschema
  | ZDefault zschema json
  | ZObject "(string \<times> zschema) list"

fun zod_type :: "json \<Rightarrow> string" where
  "zod_type JUndef = ''undefined''"
| "zod_type JNull = ''null''"
| "zod_type (JBool b) = ''boolean''"
| "zod_type (JNum r) = ''number''"
| "zod_type (JStr s) = ''string''"
| "zod_type (JArr xs) = ''array''"
| "zod_type (JObj kvs) = ''object''"

definition invalid_type :: "string \<Rightarrow> json \<Rightarrow> string" where
  "invalid_type expected v =
     (if v = JUndef then ''Required''
      else ''Expected '' @ expected @ '', received '' @ zod_type v)"

text \<open>Two results side by side: the issues of both are kept.\<close>

fun both :: "string list + 'a \<Rightarrow> string list + 'b \<Rightarrow> ('a \<Rightarrow> 'b \<Rightarrow> 'c) \<Rightarrow> string list + 'c" where
  "both (Inr a) (Inr b) f = Inr (f a b)"
| "both (Inl e) (Inr b) f = Inl e"
| "both (Inr a) (Inl e) f = Inl e"
| "both (Inl e) (Inl e') f = Inl (e @ e')"

fun zparse :: "zschema \<Rightarrow> json \<Rightarrow> string list + json"
  and zparse_items :: "zschema \<Rightarrow> json list \<Rightarrow> string list + json list"
  and zparse_shape ::
    "(string \<times> zschema) list \<Rightarrow> (string \<times> json) list \<Rightarrow> string list + (string \<times> json) list"
where
  "zparse ZString v = (case v of JStr s \<Rightarrow> Inr v | _ \<Rightarrow> Inl [invalid_type ''string'' v])"
| "zparse ZNumber v = (case v of JNum r \<Rightarrow> Inr v | _ \<Rightarrow> Inl [invalid_type ''number'' v])"
| "zparse (ZArray s) v =
     (case v of
        JArr xs \<Rightarrow> map_sum id JArr (zparse_items s xs)
      | _ \<Rightarrow> Inl [invalid_type ''array'' v])"
| "zparse (ZOptional s) v = (if v = JUndef then Inr JUndef else zparse s v)"
| "zparse (ZDefault s d) v = zparse s (if v = JUndef then d else v)"
| "zparse (ZObject shape) v =
     (case v of
        JObj kvs \<Rightarrow> map_sum id JObj (zparse_shape shape kvs)
      | _ \<Rightarrow> Inl [invalid_type ''object'' v])"
| "zparse_items s [] = Inr []"
| "zparse_items s (x # xs) = both (zparse s x) (zparse_items s xs) (#)"
| "zparse_shape [] kvs = Inr []"
| "zparse_shape ((k, s) # rest) kvs =
     both (zparse s (field (JObj kvs) k)) (zparse_shape rest kvs)
       (\<lambda>y ys. if y \<noteq> JUndef \<or> k \<in> fst ` set kvs then (k, y) # ys else ys)"

text \<open>\<^verbatim>\<open>Schema.parse(args)\<close> inside the \<^verbatim>\<open>try\<close> block.\<close>

definition parse :: "zschema \<Rightarrow> json \<Rightarrow> exn + json" where
  "parse s v = (case zparse s v of Inl issues \<Rightarrow> Inl (ZodError issues) | Inr w \<Rightarrow> Inr w)"

definition SearchPeopleSchema :: zschema where
  "SearchPeopleSchema = ZObject
     [(''keywords'', ZOptional ZString),
      (''titles'', ZOptional (ZArray ZString)),
      (''locations'', ZOptional (ZArray ZString)),
      (''organization_ids'', ZOptional (ZArray ZString)),
      (''page'', ZDefault (ZOptional ZNumber) (JNum 1)),
      (''per_page'', ZDefault (ZOptional ZNumber) (JNum 10))]"

definition EnrichPersonSchema :: zschema where
  "EnrichPersonSchema = ZObject
     [(''first_name'', ZOptional ZString),
      (''last_name'', ZOptional ZString),
      (''email'', ZOptional ZString),
      (''domain'', ZOptional ZString),
      (''organization_name'', ZOptional ZString)]"

definition EnrichOrganizationSchema :: zschema where
  "EnrichOrganizationSchema = ZObject [(''domain'', ZString)]"

definition SearchOrganizationsSchema :: zschema where
  "SearchOrganizationsSchema = ZObject
     [(''keywords'', ZOptional ZString),
      (''locations'', ZOptional (ZArray ZString)),
      (''employee_ranges'', ZOptional (ZArray ZString)),
      (''page'', ZDefault (ZOptional ZNumber) (JNum 1)),
      (''per_page'', ZDefault (ZOptional ZNumber) (JNum 10))]"

definition SearchSequencesSchema :: zschema where
  "SearchSequencesSchema = ZObject
     [(''name'', ZOptional ZString),
      (''page'', ZDefault (ZOptional ZNumber) (JNum 1)),
      (''per_page'', ZDefault (ZOptional ZNumber) (JNum 25))]"

definition GetEmailMessageActivitiesSchema :: zschema where
  "GetEmailMessageActivitiesSchema = ZObject [(''message_id'', ZString)]"

section \<open>The remote client\<close>

text \<open>
  \<^verbatim>\<open>ApolloClient\<close>. The HTTP instance is the parameter \<open>api\<close>: it answers a request with
  the body of the response (\<^verbatim>\<open>response.data\<close>) or throws. Each method issues one request.
\<close>

datatype http_request = POST string json | GET string

type_synonym api = "http_request \<Rightarrow> exn + json"

definition searchPeople :: "api \<Rightarrow> json \<Rightarrow> exn + json" where
  "searchPeople api params = api (POST ''/mixed_people/search'' params)"

definition enrichPerson :: "api \<Rightarrow> json \<Rightarrow> exn + json" where
  "enrichPerson api params = api (POST ''/people/match'' params)"

definition enrichOrganization :: "api \<Rightarrow> json \<Rightarrow> exn + json" where
  "enrichOrganization api domain = api (POST ''/organizations/enrich'' (JObj [(''domain'', domain)]))"

definition searchOrganizations :: "api \<Rightarrow> json \<Rightarrow> exn + json" where
  "searchOrganizations api params = api (POST ''/mixed_companies/search'' params)"

definition searchSequences :: "api \<Rightarrow> json \<Rightarrow> exn + json" where
  "searchSequences api params = api (POST ''/emailer_campaigns/search'' (or_else params (JObj [])))"

definition getEmailAccounts :: "api \<Rightarrow> exn + json" where
  "getEmailAccounts api = api (GET ''/email_accounts'')"

definition getEmailMessageActivities :: "numstr \<Rightarrow> api \<Rightarrow> json \<Rightarrow> exn + json" where
  "getEmailMessageActivities ns api messageId =
     api (GET (''/emailer_messages/'' @ to_string ns messageId @ ''/activities''))"

section \<open>Array methods on untyped values\<close>

text \<open>
  \<^verbatim>\<open>v.slice(0, n)\<close> on a value that is not null or undefined: arrays and strings have the
  method, on anything else the call throws. \<open>what\<close> is the expression, for the message.
\<close>

definition slice :: "nat \<Rightarrow> string \<Rightarrow> json \<Rightarrow> exn + json" where
  "slice n what v =
     (case v of
        JArr xs \<Rightarrow> Inr (JArr (take n xs))
      | JStr s \<Rightarrow> Inr (JStr (take n s))
      | _ \<Rightarrow> Inl (TypeError (what @ ''.slice is not a function'')))"

text \<open>\<^verbatim>\<open>v.map(cb)\<close>: only an array has the method.\<close>

definition array_map :: "string \<Rightarrow> (json \<Rightarrow> exn + json) \<Rightarrow> json \<Rightarrow> exn + json" where
  "array_map what cb v =
     (case v of
        JArr xs \<Rightarrow> bnd (map_exn cb xs) (\<lambda>ys. Inr (JArr ys))
      | _ \<Rightarrow> Inl (TypeError (what @ ''.map is not a function'')))"

text \<open>\<^verbatim>\<open>xs.filter(cb)\<close> with a callback that can throw.\<close>

fun filter_exn :: "('a \<Rightarrow> exn + bool) \<Rightarrow> 'a list \<Rightarrow> exn + 'a list" where
  "filter_exn cb [] = Inr []"
| "filter_exn cb (x # xs) =
     (case cb x of
        Inl e \<Rightarrow> Inl e
      | Inr b \<Rightarrow> (case filter_exn cb xs of
                   Inl e \<Rightarrow> Inl e
                 | Inr ys \<Rightarrow> Inr (if b then x # ys else ys)))"

text \<open>\<^verbatim>\<open>v.length\<close> on a value that is not null or undefined.\<close>

fun js_length :: "json \<Rightarrow> json" where
  "js_length (JArr xs) = JNum (of_nat (length xs))"
| "js_length (JStr s) = JNum (of_nat (length s))"
| "js_length v = JUndef"

text \<open>\<^verbatim>\<open>v?.[0]\<close>\<close>

fun opt_first :: "json \<Rightarrow> json" where
  "opt_first (JArr []) = JUndef"
| "opt_first (JArr (x # xs)) = x"
| "opt_first (JStr []) = JUndef"
| "opt_first (JStr (c # cs)) = JStr [c]"
| "opt_first (JObj kvs) = field (JObj kvs) ''0''"
| "opt_first v = JUndef"

section \<open>The tool handlers\<close>

text \<open>The content of a result: \<^verbatim>\<open>{ type: "text", text }\<close>.\<close>

datatype content = Text string

text \<open>
  \<^verbatim>\<open>x.city && x.state ? `${x.city}, ${x.state}` : x.country\<close>, for a value \<open>x\<close> that is not
  null or undefined.
\<close>

definition location :: "numstr \<Rightarrow> json \<Rightarrow> json" where
  "location ns x =
     (if truthy (field x ''city'') \<and> truthy (field x ''state'')
      then JStr (to_string ns (field x ''city'') @ '', '' @ to_string ns (field x ''state''))
      else field x ''country'')"

subsection \<open>apollo_search_people\<close>

text \<open>\<open>validated\<close> is the object zod returned. Each \<^verbatim>\<open>if (validated.k) params.k' = validated.k\<close>
  is one step.\<close>

definition copy_if :: "json \<Rightarrow> string \<Rightarrow> string \<Rightarrow> json \<Rightarrow> json" where
  "copy_if validated k k' params =
     (if truthy (field validated k) then set_prop params k' (field validated k) else params)"

definition search_people_params :: "json \<Rightarrow> json" where
  "search_people_params validated =
     copy_if validated ''organization_ids'' ''organization_ids''
       (copy_if validated ''locations'' ''person_locations''
         (copy_if validated ''titles'' ''person_titles''
           (copy_if validated ''keywords'' ''q_keywords''
             (JObj [(''page'', field validated ''page''),
                    (''per_page'', field validated ''per_page'')]))))"

definition person_entry :: "numstr \<Rightarrow> json \<Rightarrow> exn + json" where
  "person_entry ns p =
     bnd (get p ''name'') (\<lambda>name.
     Inr (JObj [(''name'', name),
                (''title'', field p ''title''),
                (''company'', opt_prop (field p ''organization'') ''name''),
                (''location'', location ns p),
                (''email'', field p ''email''),
                (''linkedin'', field p ''linkedin_url'')]))"

definition search_people_summary :: "numstr \<Rightarrow> json \<Rightarrow> exn + json" where
  "search_people_summary ns result =
     bnd (get result ''people'') (\<lambda>p.
     bnd (slice 5 ''people'' (or_else p (JArr []))) (\<lambda>top.
     array_map ''people.slice(...)'' (person_entry ns) top))"

text \<open>\<^verbatim>\<open>result.pagination?.total_entries || 0\<close>\<close>

definition total_entries :: "json \<Rightarrow> json" where
  "total_entries result = or_else (opt_prop (field result ''pagination'') ''total_entries'') (JNum 0)"

definition search_people :: "numstr \<Rightarrow> api \<Rightarrow> json \<Rightarrow> exn + content list" where
  "search_people ns api args =
     bnd (parse SearchPeopleSchema args) (\<lambda>validated.
     bnd (searchPeople api (search_people_params validated)) (\<lambda>result.
     bnd (search_people_summary ns result) (\<lambda>summary.
     Inr [Text (''Found '' @ to_string ns (total_entries result) @ '' people\<newline>\<newline>''
                @ ''Top Results:\<newline>'' @ stringify ns summary @ ''\<newline>\<newline>''
                @ ''Full data:\<newline>'' @ stringify ns result)])))"

subsection \<open>apollo_enrich_person\<close>

definition enrich_person_params :: "json \<Rightarrow> json" where
  "enrich_person_params validated =
     copy_if validated ''organization_name'' ''organization_name''
       (copy_if validated ''domain'' ''domain''
         (copy_if validated ''email'' ''email''
           (copy_if validated ''last_name'' ''last_name''
             (copy_if validated ''first_name'' ''first_name'' (JObj [])))))"

definition person_summary :: "numstr \<Rightarrow> json \<Rightarrow> json" where
  "person_summary ns person =
     JObj [(''name'', field person ''name''),
           (''title'', field person ''title''),
           (''company'', opt_prop (field person ''organization'') ''name''),
           (''email'', field person ''email''),
           (''phone'', opt_prop (opt_first (field person ''phone_numbers'')) ''sanitized_number''),
           (''linkedin'', field person ''linkedin_url''),
           (''location'', location ns person)]"

definition enrich_person :: "numstr \<Rightarrow> api \<Rightarrow> json \<Rightarrow> exn + content list" where
  "enrich_person ns api args =
     bnd (parse EnrichPersonSchema args) (\<lambda>validated.
     bnd (enrichPerson api (enrich_person_params validated)) (\<lambda>result.
     bnd (get result ''person'') (\<lambda>person.
     if \<not> truthy person
     then Inr [Text ''No person found with the provided information.'']
     else Inr [Text (''Person Enrichment:\<newline>\<newline>''
                     @ stringify ns (person_summary ns person) @ ''\<newline>\<newline>''
                     @ ''Full data:\<newline>'' @ stringify ns result)])))"

subsection \<open>apollo_enrich_organization\<close>

text \<open>\<^verbatim>\<open>org.current_technologies?.slice(0, 10)\<close>\<close>

definition technologies :: "json \<Rightarrow> exn + json" where
  "technologies org =
     (if nullish (field org ''current_technologies'') then Inr JUndef
      else slice 10 ''org.current_technologies?'' (field org ''current_technologies''))"

definition organization_summary :: "numstr \<Rightarrow> json \<Rightarrow> exn + json" where
  "organization_summary ns org =
     bnd (technologies org) (\<lambda>techs.
     Inr (JObj [(''name'', field org ''name''),
                (''domain'', field org ''primary_domain''),
                (''industry'', field org ''industry''),
                (''employees'', field org ''estimated_num_employees''),
                (''location'', location ns org),
                (''description'', field org ''short_description''),
                (''founded'', field org ''founded_year''),
                (''linkedin'', field org ''linkedin_url''),
                (''technologies'', techs)]))"

definition enrich_organization :: "numstr \<Rightarrow> api \<Rightarrow> json \<Rightarrow> exn + content list" where
  "enrich_organization ns api args =
     bnd (parse EnrichOrganizationSchema args) (\<lambda>validated.
     bnd (enrichOrganization api (field validated ''domain'')) (\<lambda>result.
     bnd (get result ''organization'') (\<lambda>org.
     if \<not> truthy org
     then Inr [Text ''No organization found with the provided domain.'']
     else bnd (organization_summary ns org) (\<lambda>summary.
          Inr [Text (''Organization Enrichment:\<newline>\<newline>''
                     @ stringify ns summary @ ''\<newline>\<newline>''
                     @ ''Full data:\<newline>'' @ stringify ns result)]))))"

subsection \<open>apollo_search_organizations\<close>

definition search_organizations_params :: "json \<Rightarrow> json" where
  "search_organizations_params validated =
     copy_if validated ''employee_ranges'' ''organization_num_employees_ranges''
       (copy_if validated ''locations'' ''organization_locations''
         (copy_if validated ''keywords'' ''q_keywords''
           (JObj [(''page'', field validated ''page''),
                  (''per_page'', field validated ''per_page'')])))"

definition organization_entry :: "numstr \<Rightarrow> json \<Rightarrow> exn + json" where
  "organization_entry ns o' =
     bnd (get o' ''name'') (\<lambda>name.
     Inr (JObj [(''name'', name),
                (''domain'', field o' ''primary_domain''),
                (''industry'', field o' ''industry''),
                (''employees'', field o' ''estimated_num_employees''),
                (''location'', location ns o')]))"

definition search_organizations_summary :: "numstr \<Rightarrow> json \<Rightarrow> exn + json" where
  "search_organizations_summary ns result =
     bnd (get result ''organizations'') (\<lambda>p.
     bnd (slice 5 ''orgs'' (or_else p (JArr []))) (\<lambda>top.
     array_map ''orgs.slice(...)'' (organization_entry ns) top))"

definition search_organizations :: "numstr \<Rightarrow> api \<Rightarrow> json \<Rightarrow> exn + content list" where
  "search_organizations ns api args =
     bnd (parse SearchOrganizationsSchema args) (\<lambda>validated.
     bnd (searchOrganizations api (search_organizations_params validated)) (\<lambda>result.
     bnd (search_organizations_summary ns result) (\<lambda>summary.
     Inr [Text (''Found '' @ to_string ns (total_entries result) @ '' organizations\<newline>\<newline>''
                @ ''Top Results:\<newline>'' @ stringify ns summary @ ''\<newline>\<newline>''
                @ ''Full data:\<newline>'' @ stringify ns result)])))"

subsection \<open>apollo_search_sequences\<close>

definition search_sequences_params :: "json \<Rightarrow> json" where
  "search_sequences_params validated =
     copy_if validated ''name'' ''name''
       (JObj [(''page'', field validated ''page''),
              (''per_page'', field validated ''per_page'')])"

definition sequence_entry :: "json \<Rightarrow> exn + json" where
  "sequence_entry s =
     bnd (get s ''id'') (\<lambda>id'.
     Inr (JObj [(''id'', id'),
                (''name'', field s ''name''),
                (''active'', field s ''active''),
                (''num_steps'', field s ''num_steps''),
                (''stats'', JObj [(''sent'', field s ''num_contacted_people''),
                                  (''bounced'', field s ''num_bounced_people''),
                                  (''replied'', field s ''num_replied_people''),
                                  (''interested'', field s ''num_interested_people''),
                                  (''opt_out'', field s ''num_opt_out_people'')])]))"

text \<open>\<^verbatim>\<open>const sequences = result.emailer_campaigns || []\<close>\<close>

definition sequences_of :: "json \<Rightarrow> exn + json" where
  "sequences_of result = bnd (get result ''emailer_campaigns'') (\<lambda>p. Inr (or_else p (JArr [])))"

definition search_sequences_summary :: "json \<Rightarrow> exn + json" where
  "search_sequences_summary sequences = array_map ''sequences'' sequence_entry sequences"

definition search_sequences :: "numstr \<Rightarrow> api \<Rightarrow> json \<Rightarrow> exn + content list" where
  "search_sequences ns api args =
     bnd (parse SearchSequencesSchema args) (\<lambda>validated.
     bnd (searchSequences api (search_sequences_params validated)) (\<lambda>result.
     bnd (sequences_of result) (\<lambda>sequences.
     bnd (search_sequences_summary sequences) (\<lambda>summary.
     Inr [Text (''Found '' @ to_string ns (js_length sequences) @ '' sequences\<newline>\<newline>''
                @ ''Summary:\<newline>'' @ stringify ns summary @ ''\<newline>\<newline>''
                @ ''Full data:\<newline>'' @ stringify ns result)]))))"

subsection \<open>apollo_get_email_accounts\<close>

definition account_entry :: "json \<Rightarrow> exn + json" where
  "account_entry a =
     bnd (get a ''id'') (\<lambda>id'.
     Inr (JObj [(''id'', id'),
                (''email'', field a ''email''),
                (''active'', field a ''active''),
                (''type'', field a ''type'')]))"

text \<open>\<^verbatim>\<open>const accounts = result.email_accounts || []\<close>\<close>

definition accounts_of :: "json \<Rightarrow> exn + json" where
  "accounts_of result = bnd (get result ''email_accounts'') (\<lambda>p. Inr (or_else p (JArr [])))"

definition email_accounts_summary :: "json \<Rightarrow> exn + json" where
  "email_accounts_summary accounts = array_map ''accounts'' account_entry accounts"

definition get_email_accounts :: "numstr \<Rightarrow> api \<Rightarrow> json \<Rightarrow> exn + content list" where
  "get_email_accounts ns api args =
     bnd (getEmailAccounts api) (\<lambda>result.
     bnd (accounts_of result) (\<lambda>accounts.
     bnd (email_accounts_summary accounts) (\<lambda>summary.
     Inr [Text (''Found '' @ to_string ns (js_length accounts) @ '' email accounts\<newline>\<newline>''
                @ ''Accounts:\<newline>'' @ stringify ns summary @ ''\<newline>\<newline>''
                @ ''Full data:\<newline>'' @ stringify ns result)])))"

subsection \<open>apollo_get_email_message_activities\<close>

text \<open>\<^verbatim>\<open>(a) => a.touch_type === t\<close>\<close>

definition touch_is :: "string \<Rightarrow> json \<Rightarrow> exn + bool" where
  "touch_is t a = bnd (get a ''touch_type'') (\<lambda>v. Inr (v = JStr t))"

text \<open>\<^verbatim>\<open>activities.filter((a) => a.touch_type === t).length\<close> on an array.\<close>

definition count_touches :: "string \<Rightarrow> json list \<Rightarrow> exn + json" where
  "count_touches t xs = bnd (filter_exn (touch_is t) xs) (\<lambda>ys. Inr (JNum (of_nat (length ys))))"

definition activity_entry :: "json \<Rightarrow> exn + json" where
  "activity_entry a =
     bnd (get a ''touch_type'') (\<lambda>t.
     Inr (JObj [(''type'', t),
                (''created_at'', field a ''created_at''),
                (''user_agent'', field a ''user_agent'')]))"

text \<open>\<^verbatim>\<open>const activities = result.emailer_touches || []\<close>\<close>

definition activities_of :: "json \<Rightarrow> exn + json" where
  "activities_of result = bnd (get result ''emailer_touches'') (\<lambda>p. Inr (or_else p (JArr [])))"

text \<open>The summary object; its properties are evaluated in the order they are written.\<close>

definition activities_summary :: "json \<Rightarrow> json \<Rightarrow> exn + json" where
  "activities_summary message_id activities =
     (case activities of
        JArr xs \<Rightarrow>
          bnd (count_touches ''opened'' xs) (\<lambda>opens.
          bnd (count_touches ''clicked'' xs) (\<lambda>clicks.
          bnd (count_touches ''replied'' xs) (\<lambda>replies.
          bnd (map_exn activity_entry xs) (\<lambda>entries.
          Inr (JObj [(''message_id'', message_id),
                     (''total_activities'', js_length activities),
                     (''opens'', opens),
                     (''clicks'', clicks),
                     (''replies'', replies),
                     (''activities'', JArr entries)])))))
      | _ \<Rightarrow> Inl (TypeError ''activities.filter is not a function''))"

definition get_email_message_activities :: "numstr \<Rightarrow> api \<Rightarrow> json \<Rightarrow> exn + content list" where
  "get_email_message_activities ns api args =
     bnd (parse GetEmailMessageActivitiesSchema args) (\<lambda>validated.
     bnd (getEmailMessageActivities ns api (field validated ''message_id'')) (\<lambda>result.
     bnd (activities_of result) (\<lambda>activities.
     bnd (activities_summary (field validated ''message_id'') activities) (\<lambda>summary.
     Inr [Text (''Email Message Activities:\<newline>\<newline>''
                @ stringify ns summary @ ''\<newline>\<newline>''
                @ ''Full data:\<newline>'' @ stringify ns result)]))))"

section \<open>The request handlers\<close>

text \<open>The names of the catalog the \<^verbatim>\<open>ListTools\<close> handler returns, in its order.\<close>

definition tool_names :: "string list" where
  "tool_names =
     [''apollo_search_people'', ''apollo_enrich_person'', ''apollo_enrich_organization'',
      ''apollo_search_organizations'', ''apollo_search_sequences'',
      ''apollo_get_email_accounts'', ''apollo_get_email_message_activities'']"

text \<open>The \<^verbatim>\<open>try\<close> block of the \<^verbatim>\<open>CallTool\<close> handler: the \<^verbatim>\<open>switch\<close> on the name.\<close>

definition call_tool_try :: "numstr \<Rightarrow> api \<Rightarrow> string \<Rightarrow> json \<Rightarrow> exn + content list" where
  "call_tool_try ns api name args =
     (if name = ''apollo_search_people'' then search_people ns api args
      else if name = ''apollo_enrich_person'' then enrich_person ns api args
      else if name = ''apollo_enrich_organization'' then enrich_organization ns api args
      else if name = ''apollo_search_organizations'' then search_organizations ns api args
      else if name = ''apollo_search_sequences'' then search_sequences ns api args
      else if name = ''apollo_get_email_accounts'' then get_email_accounts ns api args
      else if name = ''apollo_get_email_message_activities''
        then get_email_message_activities ns api args
      else Inl (throw_mcp ns \<lparr>code = MethodNotFound, message = ''Unknown tool: '' @ name\<rparr>))"

text \<open>The \<^verbatim>\<open>catch\<close> block: the error the handler throws for what it caught.\<close>

definition catch_error :: "exn \<Rightarrow> McpError" where
  "catch_error error =
     (case error of
        ZodError errors \<Rightarrow>
          \<lparr>code = InvalidParams, message = ''Invalid parameters: '' @ join '', '' errors\<rparr>
      | Thrown status msg \<Rightarrow>
          if status = Some 401
          then \<lparr>code = InvalidRequest,
                message = ''Invalid Apollo API key. Check your APOLLO_API_KEY environment variable.''\<rparr>
          else if status = Some 429
          then \<lparr>code = InternalError,
                message = ''Apollo API rate limit exceeded. Please wait and try again.''\<rparr>
          else \<lparr>code = InternalError,
                message = (case msg of
                             None \<Rightarrow> ''An unexpected error occurred''
                           | Some m \<Rightarrow> if m \<noteq> [] then m else ''An unexpected error occurred'')\<rparr>)"

definition call_tool :: "numstr \<Rightarrow> api \<Rightarrow> string \<Rightarrow> json \<Rightarrow> McpError + content list" where
  "call_tool ns api name args =
     (case call_tool_try ns api name args of
        Inl error \<Rightarrow> Inl (catch_error error)
      | Inr result \<Rightarrow> Inr result)"

section \<open>The output format of the specification\<close>



text \<open>A property is present in an object when its value is not undefined.\<close>

definition present :: "json \<Rightarrow> string \<Rightarrow> bool" where
  "present v k = (field v k \<noteq> JUndef)"

text \<open>A key is set in an object, whatever its value.\<close>

fun has_key :: "json \<Rightarrow> string \<Rightarrow> bool" where
  "has_key (JObj kvs) k = (k \<in> set (map fst kvs))"
| "has_key v k = False"

fun is_obj :: "json \<Rightarrow> bool" where
  "is_obj (JObj kvs) = True"
| "is_obj v = False"

section \<open>Printing integers\<close>

text \<open>
  The decimal rendering of an integer-valued number, as \<^verbatim>\<open>Number.prototype.toString\<close>
  prints integers below \<open>10\<^sup>2\<^sup>1\<close> in magnitude. It instantiates \<open>numstr\<close> in the examples,
  which print only such numbers.
\<close>

function show_nat :: "nat \<Rightarrow> string" where
  "show_nat n =
     (if n < 10 then [''0123456789'' ! n]
      else show_nat (n div 10) @ [''0123456789'' ! (n mod 10)])"
  by pat_completeness auto
termination
  by (relation "measure id") auto

declare show_nat.simps [simp del]

definition decimal :: numstr where
  "decimal r =
     (if \<lfloor>r\<rfloor> < 0 then ''-'' @ show_nat (nat (- \<lfloor>r\<rfloor>)) else show_nat (nat \<lfloor>r\<rfloor>))"

section \<open>Auxiliary facts\<close>

lemma show_nat_small [simp]: "n < 10 \<Longrightarrow> show_nat n = [''0123456789'' ! n]"
  by (simp add: show_nat.simps)

lemma show_nat_big [simp]: "\<not> n < 10 \<Longrightarrow> show_nat n = show_nat (n div 10) @ [''0123456789'' ! (n mod 10)]"
  by (subst show_nat.simps) simp

lemma both_Inr_iff: "both a b f = Inr c \<longleftrightarrow> (\<exists>x y. a = Inr x \<and> b = Inr y \<and> c = f x y)"
  by (cases a; cases b) auto

lemma zparse_shape_keys:
  "zparse_shape shape kvs = Inr out \<Longrightarrow> fst ` set out \<subseteq> fst ` set shape"
proof (induction shape arbitrary: out)
  case Nil
  then show ?case by simp
next
  case (Cons a shape)
  obtain k s where a: "a = (k, s)" by (cases a)
  from Cons.prems obtain y ys where
    ys: "zparse_shape shape kvs = Inr ys"
    and out: "out = (if y \<noteq> JUndef \<or> k \<in> fst ` set kvs then (k, y) # ys else ys)"
    by (auto simp: a both_Inr_iff)
  from Cons.IH [OF ys] show ?case by (auto simp: a out)
qed

lemma zparse_shape_field:
  "zparse_shape shape kvs = Inr out \<Longrightarrow> distinct (map fst shape) \<Longrightarrow> (k, s) \<in> set shape \<Longrightarrow>
     zparse s (field (JObj kvs) k) = Inr (field (JObj out) k)"
proof (induction shape arbitrary: out)
  case Nil
  then show ?case by simp
next
  case (Cons a shape)
  obtain k' s' where a: "a = (k', s')" by (cases a)
  from Cons.prems(1) obtain y ys where
    y: "zparse s' (field (JObj kvs) k') = Inr y"
    and ys: "zparse_shape shape kvs = Inr ys"
    and out: "out = (if y \<noteq> JUndef \<or> k' \<in> fst ` set kvs then (k', y) # ys else ys)"
    by (auto simp: a both_Inr_iff)
  show ?case
  proof (cases "(k, s) = (k', s')")
    case True
    from Cons.prems(2) have "k' \<notin> fst ` set shape" by (simp add: a image_image)
    with zparse_shape_keys [OF ys] have "k' \<notin> fst ` set ys" by blast
    then have "map_of ys k' = None" by (simp add: map_of_eq_None_iff)
    with True y show ?thesis by (auto simp: out)
  next
    case False
    with Cons.prems(3) have mem: "(k, s) \<in> set shape" by (auto simp: a)
    with Cons.prems(2) have "k \<noteq> k'" by (force simp: a)
    moreover from Cons.prems(2) have "distinct (map fst shape)" by simp
    ultimately show ?thesis using Cons.IH [OF ys _ mem] by (simp add: out)
  qed
qed

lemma zparse_shape_ok:
  "(\<And>k s. (k, s) \<in> set shape \<Longrightarrow> \<exists>w. zparse s (field (JObj kvs) k) = Inr w) \<Longrightarrow>
     \<exists>out. zparse_shape shape kvs = Inr out"
proof (induction shape)
  case Nil
  then show ?case by simp
next
  case (Cons a shape)
  obtain k s where a: "a = (k, s)" by (cases a)
  from Cons.prems [of k s] obtain w where "zparse s (field (JObj kvs) k) = Inr w" by (auto simp: a)
  moreover from Cons have "\<exists>out. zparse_shape shape kvs = Inr out" by auto
  ultimately show ?case by (auto simp: a)
qed

lemma parse_object_obj:
  "parse (ZObject shape) args = Inr v \<Longrightarrow>
     \<exists>kvs out. args = JObj kvs \<and> v = JObj out \<and> zparse_shape shape kvs = Inr out"
  by (cases args; cases "zparse_shape shape (case args of JObj kvs \<Rightarrow> kvs | _ \<Rightarrow> [])")
     (auto simp: parse_def split: sum.splits)

lemma parse_object_field:
  assumes "parse (ZObject shape) args = Inr v" "distinct (map fst shape)" "(k, s) \<in> set shape"
  shows "zparse s (field args k) = Inr (field v k)"
proof -
  from parse_object_obj [OF assms(1)] obtain kvs out where
    "args = JObj kvs" "v = JObj out" "zparse_shape shape kvs = Inr out" by blast
  with zparse_shape_field [OF _ assms(2,3)] show ?thesis by simp
qed

lemma parse_object_ok:
  assumes "\<And>k s. (k, s) \<in> set shape \<Longrightarrow> \<exists>w. zparse s (field (JObj kvs) k) = Inr w"
  shows "\<exists>v. parse (ZObject shape) (JObj kvs) = Inr v"
proof -
  from zparse_shape_ok [of shape kvs] assms obtain out where "zparse_shape shape kvs = Inr out"
    by blast
  then show ?thesis by (simp add: parse_def)
qed

lemma map_of_set_key: "map_of (set_key kvs k v) k' = (if k' = k then Some v else map_of kvs k')"
  by (induction kvs k v rule: set_key.induct) auto

lemma replace_pagination:
  assumes ok: "parse (ZObject shape) (JObj kvs) = Inr v"
    and dist: "distinct (map fst shape)"
    and page: "(''page'', ZDefault (ZOptional ZNumber) d1) \<in> set shape"
    and per_page: "(''per_page'', ZDefault (ZOptional ZNumber) d2) \<in> set shape"
  shows "\<exists>v'. parse (ZObject shape)
                 (JObj (set_key (set_key kvs ''page'' (JNum p)) ''per_page'' (JNum q))) = Inr v'
            \<and> field v' ''page'' = JNum p \<and> field v' ''per_page'' = JNum q"
proof -
  let ?kvs = "set_key (set_key kvs ''page'' (JNum p)) ''per_page'' (JNum q)"
  have "\<exists>w. zparse s (field (JObj ?kvs) k) = Inr w" if mem: "(k, s) \<in> set shape" for k s
  proof -
    consider "k = ''page''" | "k = ''per_page''" | "k \<noteq> ''page''" "k \<noteq> ''per_page''" by blast
    then show ?thesis
    proof cases
      case 1
      with mem page dist have "s = ZDefault (ZOptional ZNumber) d1"
        by (auto dest: eq_key_imp_eq_value)
      with 1 show ?thesis by (simp add: map_of_set_key)
    next
      case 2
      with mem per_page dist have "s = ZDefault (ZOptional ZNumber) d2"
        by (auto dest: eq_key_imp_eq_value)
      with 2 show ?thesis by (simp add: map_of_set_key)
    next
      case 3
      then have "field (JObj ?kvs) k = field (JObj kvs) k" by (simp add: map_of_set_key)
      with parse_object_field [OF ok dist mem] show ?thesis by simp
    qed
  qed
  then obtain v' where v': "parse (ZObject shape) (JObj ?kvs) = Inr v'"
    using parse_object_ok [of shape ?kvs] by blast
  from parse_object_field [OF v' dist page] have "field v' ''page'' = JNum p"
    by (simp add: map_of_set_key)
  moreover from parse_object_field [OF v' dist per_page] have "field v' ''per_page'' = JNum q"
    by (simp add: map_of_set_key)
  ultimately show ?thesis using v' by blast
qed

lemma keys_set_key: "fst ` set (set_key kvs k v) = insert k (fst ` set kvs)"
  by (induction kvs k v rule: set_key.induct) auto

lemma zparse_optional_string:
  "zparse (ZOptional ZString) x = Inr w \<Longrightarrow> w = JUndef \<or> (\<exists>s. w = JStr s)"
  by (cases x) (auto split: if_splits)

lemma map_sum_Inr: "map_sum id f r = Inr w \<Longrightarrow> \<exists>y. r = Inr y \<and> w = f y"
  by (cases r) auto

lemma zparse_optional_array:
  "zparse (ZOptional (ZArray ZString)) x = Inr w \<Longrightarrow> w = JUndef \<or> (\<exists>xs. w = JArr xs)"
  by (cases x) (auto split: if_splits dest: map_sum_Inr)

lemma optional_string_truthy:
  assumes "parse (ZObject shape) args = Inr v" "distinct (map fst shape)"
    "(k, ZOptional ZString) \<in> set shape"
  shows "truthy (field v k) \<longleftrightarrow> present v k \<and> field v k \<noteq> JStr []"
  using zparse_optional_string [OF parse_object_field [OF assms]]
  by (auto simp: present_def)

lemma optional_array_truthy:
  assumes "parse (ZObject shape) args = Inr v" "distinct (map fst shape)"
    "(k, ZOptional (ZArray ZString)) \<in> set shape"
  shows "truthy (field v k) \<longleftrightarrow> present v k"
  using zparse_optional_array [OF parse_object_field [OF assms]]
  by (auto simp: present_def)

lemma is_obj_copy_if [simp]: "is_obj p \<Longrightarrow> is_obj (copy_if v k k' p)"
  by (cases p) (simp_all add: copy_if_def)

lemma has_key_copy_if [simp]:
  "is_obj p \<Longrightarrow> has_key (copy_if v k k' p) j \<longleftrightarrow> (truthy (field v k) \<and> j = k') \<or> has_key p j"
  by (cases p) (auto simp: copy_if_def keys_set_key)

lemma field_copy_if [simp]:
  "is_obj p \<Longrightarrow> field (copy_if v k k' p) j =
     (if truthy (field v k) \<and> j = k' then field v k else field p j)"
  by (cases p) (simp_all add: copy_if_def map_of_set_key)

lemma people_params:
  assumes "parse SearchPeopleSchema args = Inr v"
  shows "(if present v ''keywords'' \<and> field v ''keywords'' \<noteq> JStr []
          then has_key (search_people_params v) ''q_keywords'' \<and>
               field (search_people_params v) ''q_keywords'' = field v ''keywords''
          else \<not> has_key (search_people_params v) ''q_keywords'') \<and>
         (if present v ''titles''
          then has_key (search_people_params v) ''person_titles'' \<and>
               field (search_people_params v) ''person_titles'' = field v ''titles''
          else \<not> has_key (search_people_params v) ''person_titles'') \<and>
         (if present v ''locations''
          then has_key (search_people_params v) ''person_locations'' \<and>
               field (search_people_params v) ''person_locations'' = field v ''locations''
          else \<not> has_key (search_people_params v) ''person_locations'') \<and>
         (if present v ''organization_ids''
          then has_key (search_people_params v) ''organization_ids'' \<and>
               field (search_people_params v) ''organization_ids'' = field v ''organization_ids''
          else \<not> has_key (search_people_params v) ''organization_ids'')"
proof -
  note p = assms [unfolded SearchPeopleSchema_def]
  have k: "truthy (field v ''keywords'') \<longleftrightarrow> present v ''keywords'' \<and> field v ''keywords'' \<noteq> JStr []"
    by (rule optional_string_truthy [OF p]) simp_all
  have t: "truthy (field v ''titles'') \<longleftrightarrow> present v ''titles''"
    by (rule optional_array_truthy [OF p]) simp_all
  have l: "truthy (field v ''locations'') \<longleftrightarrow> present v ''locations''"
    by (rule optional_array_truthy [OF p]) simp_all
  have o: "truthy (field v ''organization_ids'') \<longleftrightarrow> present v ''organization_ids''"
    by (rule optional_array_truthy [OF p]) simp_all
  show ?thesis
    unfolding search_people_params_def using k t l o by simp
qed

lemma organizations_params:
  assumes "parse SearchOrganizationsSchema args = Inr v"
  shows "(if present v ''keywords'' \<and> field v ''keywords'' \<noteq> JStr []
          then has_key (search_organizations_params v) ''q_keywords'' \<and>
               field (search_organizations_params v) ''q_keywords'' = field v ''keywords''
          else \<not> has_key (search_organizations_params v) ''q_keywords'') \<and>
         (if present v ''locations''
          then has_key (search_organizations_params v) ''organization_locations'' \<and>
               field (search_organizations_params v) ''organization_locations'' = field v ''locations''
          else \<not> has_key (search_organizations_params v) ''organization_locations'') \<and>
         (if present v ''employee_ranges''
          then has_key (search_organizations_params v) ''organization_num_employees_ranges'' \<and>
               field (search_organizations_params v) ''organization_num_employees_ranges''
                 = field v ''employee_ranges''
          else \<not> has_key (search_organizations_params v) ''organization_num_employees_ranges'')"
proof -
  note p = assms [unfolded SearchOrganizationsSchema_def]
  have k: "truthy (field v ''keywords'') \<longleftrightarrow> present v ''keywords'' \<and> field v ''keywords'' \<noteq> JStr []"
    by (rule optional_string_truthy [OF p]) simp_all
  have l: "truthy (field v ''locations'') \<longleftrightarrow> present v ''locations''"
    by (rule optional_array_truthy [OF p]) simp_all
  have e: "truthy (field v ''employee_ranges'') \<longleftrightarrow> present v ''employee_ranges''"
    by (rule optional_array_truthy [OF p]) simp_all
  show ?thesis
    unfolding search_organizations_params_def using k l e by simp
qed

lemma person_params:
  assumes "parse EnrichPersonSchema args = Inr v"
  shows "(if present v ''first_name'' \<and> field v ''first_name'' \<noteq> JStr []
          then has_key (enrich_person_params v) ''first_name'' \<and>
               field (enrich_person_params v) ''first_name'' = field v ''first_name''
          else \<not> has_key (enrich_person_params v) ''first_name'') \<and>
         (if present v ''last_name'' \<and> field v ''last_name'' \<noteq> JStr []
          then has_key (enrich_person_params v) ''last_name'' \<and>
               field (enrich_person_params v) ''last_name'' = field v ''last_name''
          else \<not> has_key (enrich_person_params v) ''last_name'') \<and>
         (if present v ''email'' \<and> field v ''email'' \<noteq> JStr []
          then has_key (enrich_person_params v) ''email'' \<and>
               field (enrich_person_params v) ''email'' = field v ''email''
          else \<not> has_key (enrich_person_params v) ''email'') \<and>
         (if present v ''domain'' \<and> field v ''domain'' \<noteq> JStr []
          then has_key (enrich_person_params v) ''domain'' \<and>
               field (enrich_person_params v) ''domain'' = field v ''domain''
          else \<not> has_key (enrich_person_params v) ''domain'') \<and>
         (if present v ''organization_name'' \<and> field v ''organization_name'' \<noteq> JStr []
          then has_key (enrich_person_params v) ''organization_name'' \<and>
               field (enrich_person_params v) ''organization_name'' = field v ''organization_name''
          else \<not> has_key (enrich_person_params v) ''organization_name'')"
proof -
  note p = assms(1) [unfolded EnrichPersonSchema_def]
  have t0: "truthy (field v ''first_name'') \<longleftrightarrow> present v ''first_name'' \<and> field v ''first_name'' \<noteq> JStr []"
    by (rule optional_string_truthy [OF p]) simp_all
  have t1: "truthy (field v ''last_name'') \<longleftrightarrow> present v ''last_name'' \<and> field v ''last_name'' \<noteq> JStr []"
    by (rule optional_string_truthy [OF p]) simp_all
  have t2: "truthy (field v ''email'') \<longleftrightarrow> present v ''email'' \<and> field v ''email'' \<noteq> JStr []"
    by (rule optional_string_truthy [OF p]) simp_all
  have t3: "truthy (field v ''domain'') \<longleftrightarrow> present v ''domain'' \<and> field v ''domain'' \<noteq> JStr []"
    by (rule optional_string_truthy [OF p]) simp_all
  have t4: "truthy (field v ''organization_name'') \<longleftrightarrow> present v ''organization_name'' \<and> field v ''organization_name'' \<noteq> JStr []"
    by (rule optional_string_truthy [OF p]) simp_all
  show ?thesis
    unfolding enrich_person_params_def using t0 t1 t2 t3 t4 by simp
qed

lemma sequences_params:
  assumes "parse SearchSequencesSchema args = Inr v"
  shows "if present v ''name'' \<and> field v ''name'' \<noteq> JStr []
         then has_key (search_sequences_params v) ''name'' \<and>
              field (search_sequences_params v) ''name'' = field v ''name''
         else \<not> has_key (search_sequences_params v) ''name''"
proof -
  note p = assms(1) [unfolded SearchSequencesSchema_def]
  have n: "truthy (field v ''name'') \<longleftrightarrow> present v ''name'' \<and> field v ''name'' \<noteq> JStr []"
    by (rule optional_string_truthy [OF p]) simp_all
  show ?thesis
    unfolding search_sequences_params_def using n by simp
qed

section \<open>Validation\<close>

text \<open>
  C8. When the arguments omit \<^verbatim>\<open>page\<close> and \<^verbatim>\<open>per_page\<close>, the validated arguments have
  \<open>page = 1\<close> and \<open>per_page = 10\<close> for \<^verbatim>\<open>apollo_search_people\<close> and
  \<^verbatim>\<open>apollo_search_organizations\<close>, and \<open>page = 1\<close> and \<open>per_page = 25\<close> for
  \<^verbatim>\<open>apollo_search_sequences\<close>; the empty argument object validates to exactly these.
\<close>

theorem default_pagination:
  assumes "field args ''page'' = JUndef" and "field args ''per_page'' = JUndef"
  shows "(\<forall>v. parse SearchPeopleSchema args = Inr v \<longrightarrow>
            field v ''page'' = JNum 1 \<and> field v ''per_page'' = JNum 10) \<and>
         (\<forall>v. parse SearchOrganizationsSchema args = Inr v \<longrightarrow>
            field v ''page'' = JNum 1 \<and> field v ''per_page'' = JNum 10) \<and>
         (\<forall>v. parse SearchSequencesSchema args = Inr v \<longrightarrow>
            field v ''page'' = JNum 1 \<and> field v ''per_page'' = JNum 25) \<and>
         parse SearchPeopleSchema (JObj []) = Inr (JObj [(''page'', JNum 1), (''per_page'', JNum 10)]) \<and>
         parse SearchOrganizationsSchema (JObj []) = Inr (JObj [(''page'', JNum 1), (''per_page'', JNum 10)]) \<and>
         parse SearchSequencesSchema (JObj []) = Inr (JObj [(''page'', JNum 1), (''per_page'', JNum 25)])"
proof (intro conjI allI impI)
  fix v assume p: "parse SearchPeopleSchema args = Inr v"
  from parse_object_field [OF p [unfolded SearchPeopleSchema_def], of "''page''"] assms
  show "field v ''page'' = JNum 1" by simp
  from parse_object_field [OF p [unfolded SearchPeopleSchema_def], of "''per_page''"] assms
  show "field v ''per_page'' = JNum 10" by simp
next
  fix v assume p: "parse SearchOrganizationsSchema args = Inr v"
  from parse_object_field [OF p [unfolded SearchOrganizationsSchema_def], of "''page''"] assms
  show "field v ''page'' = JNum 1" by simp
  from parse_object_field [OF p [unfolded SearchOrganizationsSchema_def], of "''per_page''"] assms
  show "field v ''per_page'' = JNum 10" by simp
next
  fix v assume p: "parse SearchSequencesSchema args = Inr v"
  from parse_object_field [OF p [unfolded SearchSequencesSchema_def], of "''page''"] assms
  show "field v ''page'' = JNum 1" by simp
  from parse_object_field [OF p [unfolded SearchSequencesSchema_def], of "''per_page''"] assms
  show "field v ''per_page'' = JNum 25" by simp
next
  show "parse SearchPeopleSchema (JObj []) = Inr (JObj [(''page'', JNum 1), (''per_page'', JNum 10)])"
    by (simp add: parse_def SearchPeopleSchema_def)
  show "parse SearchOrganizationsSchema (JObj []) = Inr (JObj [(''page'', JNum 1), (''per_page'', JNum 10)])"
    by (simp add: parse_def SearchOrganizationsSchema_def)
  show "parse SearchSequencesSchema (JObj []) = Inr (JObj [(''page'', JNum 1), (''per_page'', JNum 25)])"
    by (simp add: parse_def SearchSequencesSchema_def)
qed

theorem default_pagination_witness:
  "(\<exists>v. parse SearchPeopleSchema (JObj [(''keywords'', JStr ''engineer'')]) = Inr v
        \<and> field v ''page'' = JNum 1 \<and> field v ''per_page'' = JNum 10) \<and>
   (\<exists>v. parse SearchOrganizationsSchema (JObj [(''keywords'', JStr ''tech'')]) = Inr v
        \<and> field v ''page'' = JNum 1 \<and> field v ''per_page'' = JNum 10) \<and>
   (\<exists>v. parse SearchSequencesSchema (JObj [(''name'', JStr ''q3'')]) = Inr v
        \<and> field v ''page'' = JNum 1 \<and> field v ''per_page'' = JNum 25)"
proof -
  have a: "\<exists>v. parse SearchPeopleSchema (JObj [(''keywords'', JStr ''engineer'')]) = Inr v"
    by (simp add: parse_def SearchPeopleSchema_def)
  have b: "\<exists>v. parse SearchOrganizationsSchema (JObj [(''keywords'', JStr ''tech'')]) = Inr v"
    by (simp add: parse_def SearchOrganizationsSchema_def)
  have c: "\<exists>v. parse SearchSequencesSchema (JObj [(''name'', JStr ''q3'')]) = Inr v"
    by (simp add: parse_def SearchSequencesSchema_def)
  from a default_pagination [of "JObj [(''keywords'', JStr ''engineer'')]"]
  have "\<exists>v. parse SearchPeopleSchema (JObj [(''keywords'', JStr ''engineer'')]) = Inr v
        \<and> field v ''page'' = JNum 1 \<and> field v ''per_page'' = JNum 10"
    by auto
  moreover from b default_pagination [of "JObj [(''keywords'', JStr ''tech'')]"]
  have "\<exists>v. parse SearchOrganizationsSchema (JObj [(''keywords'', JStr ''tech'')]) = Inr v
        \<and> field v ''page'' = JNum 1 \<and> field v ''per_page'' = JNum 10"
    by auto
  moreover from c default_pagination [of "JObj [(''name'', JStr ''q3'')]"]
  have "\<exists>v. parse SearchSequencesSchema (JObj [(''name'', JStr ''q3'')]) = Inr v
        \<and> field v ''page'' = JNum 1 \<and> field v ''per_page'' = JNum 25"
    by auto
  ultimately show ?thesis by blast
qed

text \<open>
  C10. The schemas of the three search tools put no constraint on the value of a
  numeric \<^verbatim>\<open>page\<close> or \<^verbatim>\<open>per_page\<close>: arguments that validate still validate when the two
  are replaced by any numbers \<open>p\<close> and \<open>q\<close> (zero, negative, fractional, above 100), and
  the validated arguments carry \<open>p\<close> and \<open>q\<close> unchanged.
\<close>

theorem pagination_unconstrained:
  "(\<forall>v. parse SearchPeopleSchema (JObj kvs) = Inr v \<longrightarrow>
      (\<exists>v'. parse SearchPeopleSchema
               (JObj (set_key (set_key kvs ''page'' (JNum p)) ''per_page'' (JNum q))) = Inr v'
           \<and> field v' ''page'' = JNum p \<and> field v' ''per_page'' = JNum q)) \<and>
   (\<forall>v. parse SearchOrganizationsSchema (JObj kvs) = Inr v \<longrightarrow>
      (\<exists>v'. parse SearchOrganizationsSchema
               (JObj (set_key (set_key kvs ''page'' (JNum p)) ''per_page'' (JNum q))) = Inr v'
           \<and> field v' ''page'' = JNum p \<and> field v' ''per_page'' = JNum q)) \<and>
   (\<forall>v. parse SearchSequencesSchema (JObj kvs) = Inr v \<longrightarrow>
      (\<exists>v'. parse SearchSequencesSchema
               (JObj (set_key (set_key kvs ''page'' (JNum p)) ''per_page'' (JNum q))) = Inr v'
           \<and> field v' ''page'' = JNum p \<and> field v' ''per_page'' = JNum q)) \<and>
   parse SearchPeopleSchema (JObj [(''page'', JNum p), (''per_page'', JNum q)])
     = Inr (JObj [(''page'', JNum p), (''per_page'', JNum q)]) \<and>
   parse SearchOrganizationsSchema (JObj [(''page'', JNum p), (''per_page'', JNum q)])
     = Inr (JObj [(''page'', JNum p), (''per_page'', JNum q)]) \<and>
   parse SearchSequencesSchema (JObj [(''page'', JNum p), (''per_page'', JNum q)])
     = Inr (JObj [(''page'', JNum p), (''per_page'', JNum q)])"
proof (intro conjI allI impI)
  fix v assume "parse SearchPeopleSchema (JObj kvs) = Inr v"
  then show "\<exists>v'. parse SearchPeopleSchema
               (JObj (set_key (set_key kvs ''page'' (JNum p)) ''per_page'' (JNum q))) = Inr v'
           \<and> field v' ''page'' = JNum p \<and> field v' ''per_page'' = JNum q"
    unfolding SearchPeopleSchema_def by (rule replace_pagination) simp_all
next
  fix v assume "parse SearchOrganizationsSchema (JObj kvs) = Inr v"
  then show "\<exists>v'. parse SearchOrganizationsSchema
               (JObj (set_key (set_key kvs ''page'' (JNum p)) ''per_page'' (JNum q))) = Inr v'
           \<and> field v' ''page'' = JNum p \<and> field v' ''per_page'' = JNum q"
    unfolding SearchOrganizationsSchema_def by (rule replace_pagination) simp_all
next
  fix v assume "parse SearchSequencesSchema (JObj kvs) = Inr v"
  then show "\<exists>v'. parse SearchSequencesSchema
               (JObj (set_key (set_key kvs ''page'' (JNum p)) ''per_page'' (JNum q))) = Inr v'
           \<and> field v' ''page'' = JNum p \<and> field v' ''per_page'' = JNum q"
    unfolding SearchSequencesSchema_def by (rule replace_pagination) simp_all
qed (simp_all add: parse_def SearchPeopleSchema_def SearchOrganizationsSchema_def
       SearchSequencesSchema_def)

theorem pagination_unconstrained_witness:
  "parse SearchPeopleSchema (JObj [(''keywords'', JStr ''cto''), (''per_page'', JNum 10)])
     = Inr (JObj [(''keywords'', JStr ''cto''), (''page'', JNum 1), (''per_page'', JNum 10)]) \<and>
   (\<exists>v'. parse SearchPeopleSchema
            (JObj [(''keywords'', JStr ''cto''), (''per_page'', JNum (- 5 / 2)), (''page'', JNum 0)])
            = Inr v'
        \<and> field v' ''page'' = JNum 0 \<and> field v' ''per_page'' = JNum (- 5 / 2)) \<and>
   parse SearchSequencesSchema (JObj [(''page'', JNum 0), (''per_page'', JNum (- 5 / 2))])
     = Inr (JObj [(''page'', JNum 0), (''per_page'', JNum (- 5 / 2))])"
proof -
  have a: "parse SearchPeopleSchema (JObj [(''keywords'', JStr ''cto''), (''per_page'', JNum 10)])
     = Inr (JObj [(''keywords'', JStr ''cto''), (''page'', JNum 1), (''per_page'', JNum 10)])"
    by (simp add: parse_def SearchPeopleSchema_def)
  from pagination_unconstrained
         [of "[(''keywords'', JStr ''cto''), (''per_page'', JNum 10)]" 0 "- 5 / 2"] a
  show ?thesis by simp
qed

section \<open>Request mapping\<close>

text \<open>
  C3, as the claim states it, fails: an optional string that is present but empty is
  not sent. The arguments \<^verbatim>\<open>{keywords: ""}\<close> validate, \<^verbatim>\<open>keywords\<close> is present in the
  validated arguments, and the request has no \<^verbatim>\<open>q_keywords\<close>.
\<close>

theorem empty_keywords_not_sent:
  "parse SearchPeopleSchema (JObj [(''keywords'', JStr [])])
     = Inr (JObj [(''keywords'', JStr []), (''page'', JNum 1), (''per_page'', JNum 10)]) \<and>
   present (JObj [(''keywords'', JStr []), (''page'', JNum 1), (''per_page'', JNum 10)]) ''keywords'' \<and>
   search_people_params (JObj [(''keywords'', JStr []), (''page'', JNum 1), (''per_page'', JNum 10)])
     = JObj [(''page'', JNum 1), (''per_page'', JNum 10)] \<and>
   \<not> has_key (search_people_params
               (JObj [(''keywords'', JStr []), (''page'', JNum 1), (''per_page'', JNum 10)]))
        ''q_keywords''"
  by (simp add: parse_def SearchPeopleSchema_def present_def search_people_params_def copy_if_def)

text \<open>
  C3, amended. For validated arguments of \<^verbatim>\<open>apollo_search_people\<close>,
  \<^verbatim>\<open>apollo_search_organizations\<close>, \<^verbatim>\<open>apollo_search_sequences\<close> and
  \<^verbatim>\<open>apollo_enrich_person\<close>, the request carries
  the renamed copy of an optional array exactly when the array is present, and the copy of
  an optional string exactly when the string is present and not empty; in every other
  case the key is not set at all (so never null, the empty string or 0).
\<close>

theorem params_mapping:
  "(\<forall>v. parse SearchPeopleSchema args = Inr v \<longrightarrow>
      (if present v ''keywords'' \<and> field v ''keywords'' \<noteq> JStr []
       then has_key (search_people_params v) ''q_keywords'' \<and>
            field (search_people_params v) ''q_keywords'' = field v ''keywords''
       else \<not> has_key (search_people_params v) ''q_keywords'') \<and>
      (if present v ''titles''
       then has_key (search_people_params v) ''person_titles'' \<and>
            field (search_people_params v) ''person_titles'' = field v ''titles''
       else \<not> has_key (search_people_params v) ''person_titles'') \<and>
      (if present v ''locations''
       then has_key (search_people_params v) ''person_locations'' \<and>
            field (search_people_params v) ''person_locations'' = field v ''locations''
       else \<not> has_key (search_people_params v) ''person_locations'') \<and>
      (if present v ''organization_ids''
       then has_key (search_people_params v) ''organization_ids'' \<and>
            field (search_people_params v) ''organization_ids'' = field v ''organization_ids''
       else \<not> has_key (search_people_params v) ''organization_ids'')) \<and>
   (\<forall>v. parse SearchOrganizationsSchema args = Inr v \<longrightarrow>
      (if present v ''keywords'' \<and> field v ''keywords'' \<noteq> JStr []
       then has_key (search_organizations_params v) ''q_keywords'' \<and>
            field (search_organizations_params v) ''q_keywords'' = field v ''keywords''
       else \<not> has_key (search_organizations_params v) ''q_keywords'') \<and>
      (if present v ''locations''
       then has_key (search_organizations_params v) ''organization_locations'' \<and>
            field (search_organizations_params v) ''organization_locations'' = field v ''locations''
       else \<not> has_key (search_organizations_params v) ''organization_locations'') \<and>
      (if present v ''employee_ranges''
       then has_key (search_organizations_params v) ''organization_num_employees_ranges'' \<and>
            field (search_organizations_params v) ''organization_num_employees_ranges''
              = field v ''employee_ranges''
       else \<not> has_key (search_organizations_params v) ''organization_num_employees_ranges'')) \<and>
   (\<forall>v. parse SearchSequencesSchema args = Inr v \<longrightarrow>
      (if present v ''name'' \<and> field v ''name'' \<noteq> JStr []
       then has_key (search_sequences_params v) ''name'' \<and>
            field (search_sequences_params v) ''name'' = field v ''name''
       else \<not> has_key (search_sequences_params v) ''name'')) \<and>
   (\<forall>v. parse EnrichPersonSchema args = Inr v \<longrightarrow>
      (if present v ''first_name'' \<and> field v ''first_name'' \<noteq> JStr []
       then has_key (enrich_person_params v) ''first_name'' \<and>
            field (enrich_person_params v) ''first_name'' = field v ''first_name''
       else \<not> has_key (enrich_person_params v) ''first_name'') \<and>
      (if present v ''last_name'' \<and> field v ''last_name'' \<noteq> JStr []
       then has_key (enrich_person_params v) ''last_name'' \<and>
            field (enrich_person_params v) ''last_name'' = field v ''last_name''
       else \<not> has_key (enrich_person_params v) ''last_name'') \<and>
      (if present v ''email'' \<and> field v ''email'' \<noteq> JStr []
       then has_key (enrich_person_params v) ''email'' \<and>
            field (enrich_person_params v) ''email'' = field v ''email''
       else \<not> has_key (enrich_person_params v) ''email'') \<and>
      (if present v ''domain'' \<and> field v ''domain'' \<noteq> JStr []
       then has_key (enrich_person_params v) ''domain'' \<and>
            field (enrich_person_params v) ''domain'' = field v ''domain''
       else \<not> has_key (enrich_person_params v) ''domain'') \<and>
      (if present v ''organization_name'' \<and> field v ''organization_name'' \<noteq> JStr []
       then has_key (enrich_person_params v) ''organization_name'' \<and>
            field (enrich_person_params v) ''organization_name'' = field v ''organization_name''
       else \<not> has_key (enrich_person_params v) ''organization_name''))"
  using people_params [of args] organizations_params [of args] sequences_params [of args]
    person_params [of args]
  by blast

theorem params_mapping_witness:
  "parse SearchPeopleSchema (JObj [(''keywords'', JStr ''cto''), (''titles'', JArr [JStr ''CTO''])])
     = Inr (JObj [(''keywords'', JStr ''cto''), (''titles'', JArr [JStr ''CTO'']),
                  (''page'', JNum 1), (''per_page'', JNum 10)]) \<and>
   has_key (search_people_params
              (JObj [(''keywords'', JStr ''cto''), (''titles'', JArr [JStr ''CTO'']),
                     (''page'', JNum 1), (''per_page'', JNum 10)])) ''q_keywords'' \<and>
   field (search_people_params
              (JObj [(''keywords'', JStr ''cto''), (''titles'', JArr [JStr ''CTO'']),
                     (''page'', JNum 1), (''per_page'', JNum 10)])) ''q_keywords'' = JStr ''cto'' \<and>
   field (search_people_params
              (JObj [(''keywords'', JStr ''cto''), (''titles'', JArr [JStr ''CTO'']),
                     (''page'', JNum 1), (''per_page'', JNum 10)])) ''person_titles''
     = JArr [JStr ''CTO''] \<and>
   \<not> has_key (search_people_params
              (JObj [(''keywords'', JStr ''cto''), (''titles'', JArr [JStr ''CTO'']),
                     (''page'', JNum 1), (''per_page'', JNum 10)])) ''person_locations'' \<and>
   \<not> has_key (search_people_params
              (JObj [(''keywords'', JStr ''cto''), (''titles'', JArr [JStr ''CTO'']),
                     (''page'', JNum 1), (''per_page'', JNum 10)])) ''organization_ids''"
proof -
  have a: "parse SearchPeopleSchema (JObj [(''keywords'', JStr ''cto''), (''titles'', JArr [JStr ''CTO''])])
     = Inr (JObj [(''keywords'', JStr ''cto''), (''titles'', JArr [JStr ''CTO'']),
                  (''page'', JNum 1), (''per_page'', JNum 10)])"
    by (simp add: parse_def SearchPeopleSchema_def)
  from params_mapping [of "JObj [(''keywords'', JStr ''cto''), (''titles'', JArr [JStr ''CTO''])]"] a
  show ?thesis by (simp add: present_def)
qed

section \<open>Dispatch and errors\<close>

text \<open>
  C1. A tool name outside the catalog reaches the \<^verbatim>\<open>default\<close> case, which throws an
  \<^verbatim>\<open>McpError\<close> with the code \<^verbatim>\<open>MethodNotFound\<close> and the message \<^verbatim>\<open>Unknown tool: <name>\<close>.
  The throw is inside the \<^verbatim>\<open>try\<close> block, and the \<^verbatim>\<open>catch\<close> block has no case for an
  \<^verbatim>\<open>McpError\<close>: it is caught as any other error and thrown again with the code
  \<^verbatim>\<open>InternalError\<close>. The message still names the tool. So the handler never reports
  \<^verbatim>\<open>MethodNotFound\<close>.
\<close>

theorem unknown_tool_internal_error:
  "name \<notin> set tool_names \<Longrightarrow>
     call_tool ns api name args
       = Inl \<lparr>code = InternalError,
              message = ''MCP error '' @ ns (- 32601) @ '': Unknown tool: '' @ name\<rparr>"
  by (simp add: tool_names_def call_tool_def call_tool_try_def throw_mcp_def catch_error_def
        error_message_def)

theorem unknown_tool_internal_error_witness:
  "''apollo_delete_everything'' \<notin> set tool_names \<and>
   call_tool decimal (\<lambda>r. Inr (JObj [])) ''apollo_delete_everything'' (JObj [])
     = Inl \<lparr>code = InternalError,
            message = ''MCP error -32601: Unknown tool: apollo_delete_everything''\<rparr>"
proof -
  have a: "''apollo_delete_everything'' \<notin> set tool_names" by (simp add: tool_names_def)
  have b: "decimal (- 32601) = ''-32601''" by (simp add: decimal_def)
  from unknown_tool_internal_error [OF a, of decimal "\<lambda>r. Inr (JObj [])" "JObj []"] a b
  show ?thesis by simp
qed

lemma try_accounts_throw:
  "api (GET ''/email_accounts'') = Inl e \<Longrightarrow>
     call_tool_try ns api ''apollo_get_email_accounts'' args = Inl e"
  by (simp add: call_tool_try_def get_email_accounts_def getEmailAccounts_def bnd_def)

lemma try_organization_invalid:
  "call_tool_try ns api ''apollo_enrich_organization'' (JObj []) = Inl (ZodError [''Required''])"
  by (simp add: call_tool_try_def enrich_organization_def parse_def EnrichOrganizationSchema_def
        invalid_type_def bnd_def)

text \<open>
  C2, as the claim states it, fails: the message of the internal error is not the
  message of the error that was caught. The handler passes that message to the
  constructor of \<^verbatim>\<open>McpError\<close>, which puts \<^verbatim>\<open>MCP error <code>: \<close> before it. When the remote
  call throws an error with the message \<^verbatim>\<open>boom\<close>, the handler throws an \<^verbatim>\<open>McpError\<close> with
  the code \<^verbatim>\<open>InternalError\<close> whose message is \<^verbatim>\<open>MCP error -32603: boom\<close>, not \<^verbatim>\<open>boom\<close>.
\<close>

theorem boom_message_prefixed:
  "call_tool decimal (\<lambda>r. Inl (Thrown None (Some ''boom''))) ''apollo_get_email_accounts'' (JObj [])
     = Inl (catch_error (Thrown None (Some ''boom''))) \<and>
   code (catch_error (Thrown None (Some ''boom''))) = InternalError \<and>
   error_message decimal (catch_error (Thrown None (Some ''boom''))) = ''MCP error -32603: boom'' \<and>
   error_message decimal (catch_error (Thrown None (Some ''boom''))) \<noteq> ''boom''"
proof -
  have "call_tool_try decimal (\<lambda>r. Inl (Thrown None (Some ''boom''))) ''apollo_get_email_accounts''
          (JObj []) = Inl (Thrown None (Some ''boom''))"
    by (rule try_accounts_throw) simp
  then have "call_tool decimal (\<lambda>r. Inl (Thrown None (Some ''boom''))) ''apollo_get_email_accounts''
          (JObj []) = Inl (catch_error (Thrown None (Some ''boom'')))"
    by (simp add: call_tool_def)
  moreover have "error_message decimal (catch_error (Thrown None (Some ''boom'')))
                   = ''MCP error -32603: boom''"
    by (simp add: catch_error_def error_message_def decimal_def)
  moreover have "code (catch_error (Thrown None (Some ''boom''))) = InternalError"
    by (simp add: catch_error_def)
  ultimately show ?thesis by simp
qed

text \<open>
  C2, amended. Whatever the \<^verbatim>\<open>try\<close> block throws is classified in this order, and the
  message of the error the handler throws is \<^verbatim>\<open>MCP error <code>: \<close> followed by a text:
  for a \<^verbatim>\<open>ZodError\<close> the code is \<^verbatim>\<open>InvalidParams\<close> and the text is \<^verbatim>\<open>Invalid parameters: \<close>
  with the messages of the issues joined by a comma; otherwise for a response status
  401 the code is \<^verbatim>\<open>InvalidRequest\<close> and the text is the fixed one about the API key; for
  a status 429 the code is \<^verbatim>\<open>InternalError\<close> and the text is the fixed one about the rate
  limit; for anything else the code is \<^verbatim>\<open>InternalError\<close> and the text is the message of
  the error caught, or the fixed fallback when that error has no message or an empty one.
  Here the message of an error is its \<^verbatim>\<open>.message\<close> property, for the error caught and for
  the error thrown alike.
\<close>

theorem error_classification:
  "call_tool_try ns api name args = Inl error \<Longrightarrow>
     call_tool ns api name args = Inl (catch_error error) \<and>
     (\<forall>errors. error = ZodError errors \<longrightarrow>
        code (catch_error error) = InvalidParams \<and>
        error_message ns (catch_error error)
          = ''MCP error '' @ ns (- 32602) @ '': Invalid parameters: '' @ join '', '' errors) \<and>
     (\<forall>msg. error = Thrown (Some 401) msg \<longrightarrow>
        code (catch_error error) = InvalidRequest \<and>
        error_message ns (catch_error error)
          = ''MCP error '' @ ns (- 32600)
            @ '': Invalid Apollo API key. Check your APOLLO_API_KEY environment variable.'') \<and>
     (\<forall>msg. error = Thrown (Some 429) msg \<longrightarrow>
        code (catch_error error) = InternalError \<and>
        error_message ns (catch_error error)
          = ''MCP error '' @ ns (- 32603)
            @ '': Apollo API rate limit exceeded. Please wait and try again.'') \<and>
     (\<forall>status m. error = Thrown status (Some m) \<longrightarrow> status \<noteq> Some 401 \<longrightarrow> status \<noteq> Some 429 \<longrightarrow>
        m \<noteq> [] \<longrightarrow>
        code (catch_error error) = InternalError \<and>
        error_message ns (catch_error error) = ''MCP error '' @ ns (- 32603) @ '': '' @ m) \<and>
     (\<forall>status msg. error = Thrown status msg \<longrightarrow> status \<noteq> Some 401 \<longrightarrow> status \<noteq> Some 429 \<longrightarrow>
        msg = None \<or> msg = Some [] \<longrightarrow>
        code (catch_error error) = InternalError \<and>
        error_message ns (catch_error error)
          = ''MCP error '' @ ns (- 32603) @ '': An unexpected error occurred'')"
  by (auto simp: call_tool_def catch_error_def error_message_def)

theorem error_classification_witness:
  "(\<exists>e. call_tool decimal (\<lambda>r. Inl (Thrown None (Some ''boom''))) ''apollo_get_email_accounts''
           (JObj []) = Inl e
        \<and> code e = InternalError \<and> error_message decimal e = ''MCP error -32603: boom'') \<and>
   (\<exists>e. call_tool decimal (\<lambda>r. Inl (Thrown (Some 401) (Some ''Request failed with status code 401'')))
           ''apollo_get_email_accounts'' (JObj []) = Inl e
        \<and> code e = InvalidRequest
        \<and> error_message decimal e
            = ''MCP error -32600: Invalid Apollo API key. Check your APOLLO_API_KEY environment variable.'') \<and>
   (\<exists>e. call_tool decimal (\<lambda>r. Inl (Thrown (Some 429) (Some ''Request failed with status code 429'')))
           ''apollo_get_email_accounts'' (JObj []) = Inl e
        \<and> code e = InternalError
        \<and> error_message decimal e
            = ''MCP error -32603: Apollo API rate limit exceeded. Please wait and try again.'') \<and>
   (\<exists>e. call_tool decimal (\<lambda>r. Inl (Thrown (Some 500) None)) ''apollo_get_email_accounts''
           (JObj []) = Inl e
        \<and> code e = InternalError
        \<and> error_message decimal e = ''MCP error -32603: An unexpected error occurred'') \<and>
   (\<exists>e. call_tool decimal (\<lambda>r. Inl (Thrown (Some 401) (Some ''Request failed with status code 401'')))
           ''apollo_enrich_organization'' (JObj []) = Inl e
        \<and> code e = InvalidParams
        \<and> error_message decimal e = ''MCP error -32602: Invalid parameters: Required'')"
proof -
  have t: "call_tool_try decimal (\<lambda>r. Inl e) ''apollo_get_email_accounts'' (JObj []) = Inl e" for e
    by (rule try_accounts_throw) simp
  have n: "decimal (- 32600) = ''-32600''" "decimal (- 32602) = ''-32602''"
    "decimal (- 32603) = ''-32603''"
    by (simp_all add: decimal_def)
  from error_classification [OF t [of "Thrown None (Some ''boom'')"]]
       error_classification [OF t [of "Thrown (Some 401) (Some ''Request failed with status code 401'')"]]
       error_classification [OF t [of "Thrown (Some 429) (Some ''Request failed with status code 429'')"]]
       error_classification [OF t [of "Thrown (Some 500) None"]]
       error_classification [OF try_organization_invalid
          [of decimal "\<lambda>r. Inl (Thrown (Some 401) (Some ''Request failed with status code 401''))"]]
  show ?thesis by (simp add: n)
qed

section \<open>Enrichment without a match\<close>

text \<open>
  C5. When the arguments of an enrichment tool validate and the remote response is an
  object without the entity (\<^verbatim>\<open>person\<close>, \<^verbatim>\<open>organization\<close>; a null entity counts as
  none), the handler returns, as a success, one text block that is the fixed sentence and
  nothing else.
\<close>

theorem enrichment_not_found:
  "(\<forall>validated kvs.
      parse EnrichPersonSchema args = Inr validated \<longrightarrow>
      api (POST ''/people/match'' (enrich_person_params validated)) = Inr (JObj kvs) \<longrightarrow>
      \<not> truthy (field (JObj kvs) ''person'') \<longrightarrow>
      call_tool ns api ''apollo_enrich_person'' args
        = Inr [Text ''No person found with the provided information.'']) \<and>
   (\<forall>validated kvs.
      parse EnrichOrganizationSchema args = Inr validated \<longrightarrow>
      api (POST ''/organizations/enrich'' (JObj [(''domain'', field validated ''domain'')]))
        = Inr (JObj kvs) \<longrightarrow>
      \<not> truthy (field (JObj kvs) ''organization'') \<longrightarrow>
      call_tool ns api ''apollo_enrich_organization'' args
        = Inr [Text ''No organization found with the provided domain.''])"
  by (simp add: call_tool_def call_tool_try_def enrich_person_def enrich_organization_def
        enrichPerson_def enrichOrganization_def bnd_def get_def)

theorem enrichment_not_found_witness:
  "call_tool decimal (\<lambda>r. Inr (JObj [])) ''apollo_enrich_person'' (JObj [(''email'', JStr ''x@y.com'')])
     = Inr [Text ''No person found with the provided information.''] \<and>
   call_tool decimal (\<lambda>r. Inr (JObj [(''organization'', JNull)])) ''apollo_enrich_organization''
       (JObj [(''domain'', JStr ''nowhere.example'')])
     = Inr [Text ''No organization found with the provided domain.'']"
proof -
  have p: "parse EnrichPersonSchema (JObj [(''email'', JStr ''x@y.com'')])
             = Inr (JObj [(''email'', JStr ''x@y.com'')])"
    by (simp add: parse_def EnrichPersonSchema_def)
  have q: "parse EnrichOrganizationSchema (JObj [(''domain'', JStr ''nowhere.example'')])
             = Inr (JObj [(''domain'', JStr ''nowhere.example'')])"
    by (simp add: parse_def EnrichOrganizationSchema_def)
  from enrichment_not_found
         [of "JObj [(''email'', JStr ''x@y.com'')]" "\<lambda>r. Inr (JObj [])" decimal] p
  have "call_tool decimal (\<lambda>r. Inr (JObj [])) ''apollo_enrich_person''
          (JObj [(''email'', JStr ''x@y.com'')])
        = Inr [Text ''No person found with the provided information.'']"
    by simp
  moreover from enrichment_not_found
         [of "JObj [(''domain'', JStr ''nowhere.example'')]"
             "\<lambda>r. Inr (JObj [(''organization'', JNull)])" decimal] q
  have "call_tool decimal (\<lambda>r. Inr (JObj [(''organization'', JNull)])) ''apollo_enrich_organization''
          (JObj [(''domain'', JStr ''nowhere.example'')])
        = Inr [Text ''No organization found with the provided domain.'']"
    by simp
  ultimately show ?thesis by simp
qed

section \<open>Summaries\<close>












section \<open>The rendered text\<close>












end
